theory Spec2Isabelle
  imports Complex_Main "HOL-Library.Sublist"
begin

section \<open>The graph-description builder of the causal discovery notebook\<close>

text \<open>
  The notebook \<^verbatim>\<open>dowhy_causal_discovery_example.ipynb\<close> defines two helpers of its own:
  \<^verbatim>\<open>make_graph\<close>, which turns an adjacency matrix into a graphviz digraph, and
  \<^verbatim>\<open>str_to_dot\<close>, which rewrites the text of that digraph for the effect estimator.
  Both are embedded here. Python exceptions are values of the type \<open>error\<close>; a function
  that may raise returns \<open>error + 'a\<close>, with \<open>Inl\<close> for the exception.
\<close>

subsection \<open>Python sequences\<close>

datatype error = IndexError

text \<open>
  \<^verbatim>\<open>xs[i]\<close>: a negative index counts from the end, and an index outside the sequence
  raises \<^verbatim>\<open>IndexError\<close>.
\<close>

definition py_index :: "'a list \<Rightarrow> int \<Rightarrow> error + 'a" where
  "py_index xs i =
     (let n = int (length xs);
          k = (if i < 0 then i + n else i)
      in if k < 0 \<or> n \<le> k then Inl IndexError else Inr (xs ! nat k))"

text \<open>
  \<^verbatim>\<open>xs[start:stop]\<close> with step one: an absent bound is the end of the sequence on its
  side, a negative bound counts from the end, and both bounds are clamped into the
  sequence, so that a slice never raises.
\<close>

definition slice_bound :: "nat \<Rightarrow> int \<Rightarrow> nat" where
  "slice_bound n i = (if i < 0 then nat (max (i + int n) 0) else min (nat i) n)"

definition py_slice :: "int option \<Rightarrow> int option \<Rightarrow> 'a list \<Rightarrow> 'a list" where
  "py_slice start stop xs =
     (let n = length xs;
          lo = (case start of None \<Rightarrow> 0 | Some i \<Rightarrow> slice_bound n i);
          hi = (case stop of None \<Rightarrow> n | Some j \<Rightarrow> slice_bound n j)
      in drop lo (take hi xs))"

subsection \<open>Python strings\<close>

text \<open>
  A Python string is modelled as a \<^typ>\<open>string\<close>, one \<^typ>\<open>char\<close> for each code point
  below 256. The characters that \<^verbatim>\<open>str.isspace\<close> accepts in that range are the controls
  9 to 13 and 28 to 31, the space, and the code points 133 and 160.
\<close>

definition NL :: char where
  "NL = CHR 0x0A"

definition TAB :: char where
  "TAB = CHR 0x09"

definition py_isspace :: "char \<Rightarrow> bool" where
  "py_isspace c \<longleftrightarrow>
     c \<in> set [CHR 0x09, CHR 0x0A, CHR 0x0B, CHR 0x0C, CHR 0x0D,
              CHR 0x1C, CHR 0x1D, CHR 0x1E, CHR 0x1F, CHR 0x20, CHR 0x85, CHR 0xA0]"

text \<open>\<^verbatim>\<open>s.strip()\<close> drops the whitespace at both ends.\<close>

definition py_strip :: "string \<Rightarrow> string" where
  "py_strip s = rev (dropWhile py_isspace (rev (dropWhile py_isspace s)))"

text \<open>
  \<^verbatim>\<open>s.replace(old, new)\<close> where \<^verbatim>\<open>old\<close> is a single character: every occurrence of the
  character is replaced by the string \<^verbatim>\<open>new\<close>.
\<close>

definition py_replace :: "char \<Rightarrow> string \<Rightarrow> string \<Rightarrow> string" where
  "py_replace old new s = concat (map (\<lambda>c. if c = old then new else [c]) s)"

subsection \<open>\<^verbatim>\<open>str_to_dot\<close>\<close>

text \<open>
  \<^verbatim>\<open>
  def str_to_dot(string):
      graph = string.strip().replace('\n', ';').replace('\t','')
      graph = graph[:9] + graph[10:-2] + graph[-1]
      return graph
  \<close>
  The first line is \<open>normalise\<close>. In the second line the two slices cannot raise, and
  \<^verbatim>\<open>graph[-1]\<close> raises on the empty string.
\<close>

definition normalise :: "string \<Rightarrow> string" where
  "normalise string = py_replace TAB [] (py_replace NL '';'' (py_strip string))"

definition str_to_dot :: "string \<Rightarrow> error + string" where
  "str_to_dot string =
     (let graph = normalise string;
          a = py_slice None (Some 9) graph;
          b = py_slice (Some 10) (Some (- 2)) graph
      in case py_index graph (- 1) of
           Inl e \<Rightarrow> Inl e
         | Inr c \<Rightarrow> Inr (a @ b @ [c]))"

text \<open>
  The edit as the specification words it: the character at position 9 and the
  second-to-last character are removed, every other character is kept.
\<close>

definition remove_9_and_second_last :: "string \<Rightarrow> string" where
  "remove_9_and_second_last t =
     map fst (filter (\<lambda>(c, i). i \<noteq> 9 \<and> i + 2 \<noteq> length t) (zip t [0..<length t]))"

text \<open>
  Modelled from the spec: the text of the native dialect, which the graph-drawing
  library renders from the graph object (the library is not part of the repository).
  It has a header line with the graph-type keyword and the opening brace, then one
  tab-indented line for each node or edge declaration, then the closing brace on a line
  of its own. For the digraph that \<^verbatim>\<open>make_graph\<close> builds the header is
  \<^verbatim>\<open>digraph {\<close>, nine characters long.
\<close>

definition render :: "string list \<Rightarrow> string" where
  "render stmts =
     ''digraph {'' @ [NL] @ concat (map (\<lambda>l. TAB # l @ [NL]) stmts) @ ''}'' @ [NL]"

subsection \<open>The graph object\<close>

text \<open>
  A \<^verbatim>\<open>graphviz.Digraph\<close> keeps the layout engine it was created with and a body, the
  list of its declarations in the order of the calls that added them: \<^verbatim>\<open>d.node(name)\<close>
  appends a node declaration, \<^verbatim>\<open>d.edge(tail, head, label=l)\<close> an edge declaration.
\<close>

datatype stmt = Node string | Edge string string string

record digraph =
  engine :: string
  body :: "stmt list"

definition Digraph :: "string \<Rightarrow> digraph" where
  "Digraph e = \<lparr>engine = e, body = []\<rparr>"

definition node :: "digraph \<Rightarrow> string \<Rightarrow> digraph" where
  "node d name = d\<lparr>body := body d @ [Node name]\<rparr>"

definition edge :: "digraph \<Rightarrow> string \<Rightarrow> string \<Rightarrow> string \<Rightarrow> digraph" where
  "edge d tail_name head_name label = d\<lparr>body := body d @ [Edge tail_name head_name label]\<rparr>"

fun nodes_of :: "stmt list \<Rightarrow> string list" where
  "nodes_of [] = []"
| "nodes_of (Node n # ss) = n # nodes_of ss"
| "nodes_of (Edge t h l # ss) = nodes_of ss"

fun edges_of :: "stmt list \<Rightarrow> (string \<times> string \<times> string) list" where
  "edges_of [] = []"
| "edges_of (Node n # ss) = edges_of ss"
| "edges_of (Edge t h l # ss) = (t, h, l) # edges_of ss"

text \<open>
  The declared nodes of a graph, and its edges as triples of tail, head and label, both
  in declaration order.
\<close>

definition nodes :: "digraph \<Rightarrow> string list" where
  "nodes d = nodes_of (body d)"

definition edges :: "digraph \<Rightarrow> (string \<times> string \<times> string) list" where
  "edges d = edges_of (body d)"

subsection \<open>Numbers and arrays\<close>

text \<open>
  The adjacency matrix is a two-dimensional numpy array: an element type and the rows
  of entries. The element type is a floating point type or a signed integer type of a
  given number of bits. An entry is modelled as a real number: a floating point number
  stands for the decimal it is written as, the rounding of floating point numbers being
  left out, and an integer stands for itself. Python's \<^verbatim>\<open>str\<close> on an entry depends on
  the element type and on the formatting of floating point numbers; it is a parameter
  \<open>str\<close> of the model.
\<close>

datatype dtype = Floating | Signed nat

record ndarray =
  dtype :: dtype
  rows :: "real list list"

text \<open>
  \<^verbatim>\<open>np.abs\<close> computes within the element type. In a signed integer type of \<open>w\<close> bits
  the absolute value of the minimum \<open>- 2 ^ (w - 1)\<close> does not fit: the result wraps around
  and is the minimum itself. Every other entry has its absolute value.
\<close>

definition np_abs :: "dtype \<Rightarrow> real \<Rightarrow> real" where
  "np_abs t x =
     (case t of
        Floating \<Rightarrow> \<bar>x\<bar>
      | Signed w \<Rightarrow> (if x = - (2 ^ (w - 1)) then x else \<bar>x\<bar>))"

text \<open>The decimal digits of a natural number, as \<^verbatim>\<open>f'{i}'\<close> prints an index.\<close>

definition digit :: "nat \<Rightarrow> char" where
  "digit k = ''0123456789'' ! k"

fun str_nat :: "nat \<Rightarrow> string" where
  "str_nat n = (if n < 10 then [digit n] else str_nat (n div 10) @ [digit (n mod 10)])"

declare str_nat.simps [simp del]

text \<open>\<^verbatim>\<open>np.abs(a) > t\<close>: the boolean array of the same shape.\<close>

definition np_abs_gt :: "ndarray \<Rightarrow> real \<Rightarrow> bool list list" where
  "np_abs_gt a t = map (map (\<lambda>x. np_abs (dtype a) x > t)) (rows a)"

text \<open>
  \<^verbatim>\<open>np.where(idx)\<close> on a two-dimensional boolean array: the row indices and the column
  indices of the true entries, row by row and left to right within a row.
\<close>

definition np_where :: "bool list list \<Rightarrow> nat list \<times> nat list" where
  "np_where idx =
     (let found = concat (map (\<lambda>(r, row). map (Pair r) (filter (\<lambda>c. row ! c) [0..<length row]))
                              (zip [0..<length idx] idx))
      in (map fst found, map snd found))"

text \<open>
  \<^verbatim>\<open>a[idx]\<close> with a boolean array of the same shape: the entries of \<^verbatim>\<open>a\<close> at the true
  positions, in the same order.
\<close>

definition np_select :: "ndarray \<Rightarrow> bool list list \<Rightarrow> real list" where
  "np_select a idx =
     concat (map (\<lambda>(row, mask). map fst (filter snd (zip row mask))) (zip (rows a) idx))"

text \<open>The truth value of an optional list: \<^verbatim>\<open>None\<close> and the empty list are false.\<close>

definition truthy :: "'a list option \<Rightarrow> bool" where
  "truthy labels = (case labels of None \<Rightarrow> False | Some ls \<Rightarrow> ls \<noteq> [])"

subsection \<open>\<^verbatim>\<open>make_graph\<close>\<close>

text \<open>
  \<^verbatim>\<open>
  def make_graph(adjacency_matrix, labels=None):
      idx = np.abs(adjacency_matrix) > 0.01
      dirs = np.where(idx)
      d = graphviz.Digraph(engine='dot')
      names = labels if labels else [f'x{i}' for i in range(len(adjacency_matrix))]
      for name in names:
          d.node(name)
      for to, from_, coef in zip(dirs[0], dirs[1], adjacency_matrix[idx]):
          d.edge(names[from_], names[to], label=str(coef))
      return d
  \<close>
  The second loop is \<open>add_edges\<close>: each of the two reads of \<^verbatim>\<open>names\<close> may raise, and
  the exception ends the function. The length of the array is the number of its rows.
\<close>

fun add_edges ::
  "(real \<Rightarrow> string) \<Rightarrow> string list \<Rightarrow> (nat \<times> nat \<times> real) list \<Rightarrow> digraph \<Rightarrow> error + digraph"
where
  "add_edges str names [] d = Inr d"
| "add_edges str names ((to, from', coef) # rest) d =
     (case py_index names (int from') of
        Inl e \<Rightarrow> Inl e
      | Inr tail_name \<Rightarrow>
          (case py_index names (int to) of
             Inl e \<Rightarrow> Inl e
           | Inr head_name \<Rightarrow> add_edges str names rest (edge d tail_name head_name (str coef))))"

definition make_graph ::
  "(real \<Rightarrow> string) \<Rightarrow> ndarray \<Rightarrow> string list option \<Rightarrow> error + digraph"
where
  "make_graph str adjacency_matrix labels =
     (let idx = np_abs_gt adjacency_matrix 0.01;
          dirs = np_where idx;
          d = Digraph ''dot'';
          names = (if truthy labels then the labels
                   else map (\<lambda>i. ''x'' @ str_nat i) [0..<length (rows adjacency_matrix)]);
          d = fold (\<lambda>name d. node d name) names d
      in add_edges str names (zip (fst dirs) (zip (snd dirs) (np_select adjacency_matrix idx))) d)"

subsection \<open>Notions used in the statements\<close>

text \<open>Rows that form a square of size \<open>n\<close>: there are \<open>n\<close> rows of \<open>n\<close> entries.\<close>

definition square :: "nat \<Rightarrow> real list list \<Rightarrow> bool" where
  "square n rs \<longleftrightarrow> length rs = n \<and> (\<forall>row \<in> set rs. length row = n)"

text \<open>
  An entry on which \<^verbatim>\<open>np.abs\<close> wraps around, the minimum of a signed integer type; and
  the arrays that hold no such entry, among them every array of floating point numbers.
\<close>

definition wraps :: "dtype \<Rightarrow> real \<Rightarrow> bool" where
  "wraps t x = (case t of Floating \<Rightarrow> False | Signed w \<Rightarrow> x = - (2 ^ (w - 1)))"


text \<open>
  The positions of the entries that pass the test \<^verbatim>\<open>np.abs(a) > t\<close>, in row-major
  order.
\<close>

definition hits :: "real \<Rightarrow> ndarray \<Rightarrow> (nat \<times> nat) list" where
  "hits t a =
     concat (map (\<lambda>r. map (Pair r)
                    (filter (\<lambda>c. np_abs (dtype a) (rows a ! r ! c) > t) [0..<length (rows a ! r)]))
                 [0..<length (rows a)])"

text \<open>The node names that \<^verbatim>\<open>make_graph\<close> works with.\<close>

definition names_for :: "ndarray \<Rightarrow> string list option \<Rightarrow> string list" where
  "names_for a labels =
     (if truthy labels then the labels else map (\<lambda>i. ''x'' @ str_nat i) [0..<length (rows a)])"



text \<open>
  The strings that Python prints for the entries of the matrix of the scenario,
  \<^verbatim>\<open>np.array([[0, 0.5], [0.02, 0]])\<close>: \<^verbatim>\<open>'0.5'\<close>, \<^verbatim>\<open>'0.02'\<close> and \<^verbatim>\<open>'0.0'\<close>.
\<close>

definition str_scenario :: "real \<Rightarrow> string" where
  "str_scenario x = (if x = 0.5 then ''0.5'' else if x = 0.02 then ''0.02'' else ''0.0'')"

section \<open>Properties of \<^verbatim>\<open>str_to_dot\<close>\<close>

subsection \<open>The slices and the last character\<close>

lemma py_slice_to_9: "py_slice None (Some 9) t = take 9 t"
  by (auto simp add: py_slice_def slice_bound_def min_def Let_def)

lemma py_slice_10_to_minus_2:
  "py_slice (Some 10) (Some (- 2)) t = drop 10 (take (length t - 2) t)"
  by (auto simp add: py_slice_def slice_bound_def nat_diff_distrib' max_def min_def Let_def)

lemma py_index_minus_1: "py_index t (- 1) = (if t = [] then Inl IndexError else Inr (last t))"
  by (cases t rule: rev_cases) (simp_all add: py_index_def Let_def nat_add_distrib)

lemma py_index_nat: "py_index xs (int i) = (if i < length xs then Inr (xs ! i) else Inl IndexError)"
  by (simp add: py_index_def Let_def)

lemma str_to_dot_unfold:
  "str_to_dot s =
     (let t = normalise s in
      if t = [] then Inl IndexError
      else Inr (take 9 t @ drop 10 (take (length t - 2) t) @ [last t]))"
  by (simp add: str_to_dot_def Let_def py_slice_to_9 py_slice_10_to_minus_2 py_index_minus_1)

subsection \<open>Stripping and replacing\<close>

lemma dropWhile_all: "(\<forall>c\<in>set (dropWhile P s). P c) \<longleftrightarrow> (\<forall>c\<in>set s. P c)"
  by (induction s) auto

lemma py_strip_Nil_iff: "py_strip s = [] \<longleftrightarrow> (\<forall>c\<in>set s. py_isspace c)"
  by (simp add: py_strip_def dropWhile_all)

lemma py_strip_hd:
  assumes "py_strip s \<noteq> []"
  shows "\<not> py_isspace (hd (py_strip s))"
proof -
  let ?u = "dropWhile py_isspace s"
  from assms have u: "?u \<noteq> []"
    by (simp add: py_strip_Nil_iff dropWhile_eq_Nil_conv)
  then have h: "\<not> py_isspace (hd ?u)" by (rule hd_dropWhile)
  have "rev (py_strip s) = dropWhile py_isspace (rev ?u)" by (simp add: py_strip_def)
  then obtain ws where "rev ?u = ws @ rev (py_strip s)"
    by (metis takeWhile_dropWhile_id)
  then have "?u = py_strip s @ rev ws" by (metis rev_append rev_rev_ident)
  with assms have "hd ?u = hd (py_strip s)" by simp
  with h show ?thesis by simp
qed

lemma py_replace_Cons:
  "py_replace old new (c # s) = (if c = old then new else [c]) @ py_replace old new s"
  by (simp add: py_replace_def)

lemma py_replace_append:
  "py_replace old new (s @ s') = py_replace old new s @ py_replace old new s'"
  by (simp add: py_replace_def)

lemma py_replace_id: "old \<notin> set s \<Longrightarrow> py_replace old new s = s"
  by (induction s) (auto simp: py_replace_Cons py_replace_def)

lemma py_replace_concat:
  "py_replace old new (concat xss) = concat (map (py_replace old new) xss)"
  by (induction xss) (simp_all add: py_replace_append, simp add: py_replace_def)

lemma normalise_Nil_iff: "normalise s = [] \<longleftrightarrow> (\<forall>c\<in>set s. py_isspace c)"
proof (cases "py_strip s")
  case Nil
  then show ?thesis using py_strip_Nil_iff[of s] by (simp add: normalise_def py_replace_def)
next
  case (Cons x xs)
  then have "\<not> py_isspace x" using py_strip_hd[of s] by simp
  then have "x \<noteq> NL" "x \<noteq> TAB" by (auto simp: py_isspace_def NL_def TAB_def)
  then have "normalise s \<noteq> []" using Cons by (simp add: normalise_def py_replace_Cons)
  moreover have "\<not> (\<forall>c\<in>set s. py_isspace c)" using Cons py_strip_Nil_iff[of s] by simp
  ultimately show ?thesis by simp
qed

subsection \<open>The edit on long strings\<close>

lemma remove_as_nths:
  "remove_9_and_second_last t = nths t {i. i \<noteq> 9 \<and> i + 2 \<noteq> length t}"
  by (simp add: remove_9_and_second_last_def nths_def case_prod_unfold)

lemma last_two:
  assumes "2 \<le> length t"
  obtains t' y z where "t = t' @ [y, z]"
proof -
  from assms have "t \<noteq> []" by auto
  then obtain u z where u: "t = u @ [z]" by (meson rev_exhaust)
  with assms have "u \<noteq> []" by auto
  then obtain t' y where "u = t' @ [y]" by (meson rev_exhaust)
  with u have "t = t' @ [y, z]" by simp
  then show ?thesis by (rule that)
qed

lemma edit_long:
  assumes "11 \<le> length t"
  shows "take 9 t @ drop 10 (take (length t - 2) t) @ [last t] = remove_9_and_second_last t"
proof -
  from assms have "2 \<le> length t" by simp
  then obtain t' y z where t: "t = t' @ [y, z]" by (rule last_two)
  with assms have len: "9 \<le> length t'" by simp
  show ?thesis
  proof (cases "length t' = 9")
    case True
    then show ?thesis
      by (simp add: remove_as_nths t nths_append nths_Cons nths_all)
  next
    case False
    with len have l10: "9 < length t'" by simp
    define a where "a = take 9 t'"
    define b where "b = drop 10 t'"
    have t': "t' = a @ t' ! 9 # b" unfolding a_def b_def
      using id_take_nth_drop[of 9 t'] l10 by simp
    have la: "length a = 9" using l10 by (simp add: a_def)
    obtain x where tx: "t = a @ x # b @ [y, z]" using t t' by simp
    have "nths (a @ x # b @ [y, z]) {i. i \<noteq> 9 \<and> i + 2 \<noteq> length (a @ x # b @ [y, z])}
        = a @ b @ [z]"
      by (simp add: nths_append nths_Cons nths_all la)
    then have "nths t {i. i \<noteq> 9 \<and> i + 2 \<noteq> length t} = a @ b @ [z]"
      by (simp only: tx)
    moreover have "take 9 t @ drop 10 (take (length t - 2) t) @ [last t] = a @ b @ [z]"
      using l10 by (simp add: t a_def b_def)
    ultimately show ?thesis by (simp add: remove_as_nths)
  qed
qed

subsection \<open>Rendered text\<close>

lemma py_strip_render:
  "py_strip (render stmts) =
     ''digraph {'' @ [NL] @ concat (map (\<lambda>l. TAB # l @ [NL]) stmts) @ ''}''"
  by (simp add: py_strip_def render_def py_isspace_def NL_def)

lemma normalise_render:
  "normalise (render stmts) =
     ''digraph {;'' @
     concat (map (\<lambda>l. py_replace TAB [] (py_replace NL '';'' l) @ '';'') stmts) @ ''}''"
proof -
  have 1: "map (py_replace NL '';'') (map (\<lambda>l. TAB # l @ [NL]) stmts)
      = map (\<lambda>l. TAB # py_replace NL '';'' l @ '';'') stmts"
    by (simp add: py_replace_append py_replace_Cons) (simp add: py_replace_def NL_def TAB_def)
  have 2: "map (py_replace TAB []) (map (\<lambda>l. TAB # py_replace NL '';'' l @ '';'') stmts)
      = map (\<lambda>l. py_replace TAB [] (py_replace NL '';'' l) @ '';'') stmts"
    by (simp add: py_replace_append py_replace_Cons) (simp add: py_replace_def TAB_def)
  show ?thesis
    unfolding normalise_def py_strip_render
    by (simp only: py_replace_append py_replace_concat 1 2)
       (simp add: py_replace_def NL_def TAB_def)
qed

subsection \<open>What the edit returns\<close>

text \<open>
  Claim C2, as the code has it. Let \<open>t\<close> be the input with the whitespace stripped at
  both ends, every newline replaced by a semicolon and every tab deleted. When \<open>t\<close> is
  empty, \<^verbatim>\<open>str_to_dot\<close> raises \<^verbatim>\<open>IndexError\<close>; otherwise it returns the first nine
  characters of \<open>t\<close>, then the characters from position 10 up to the third from the end,
  then the last character. When \<open>t\<close> has at least eleven characters this is \<open>t\<close> without
  the character at position 9 and without the second-to-last character. A \<open>t\<close> of ten
  characters is returned unchanged, and a shorter one gets its last character appended
  once more.
\<close>

theorem str_to_dot_edit:
  assumes "t = py_replace TAB [] (py_replace NL '';'' (py_strip s))"
  shows "(t = [] \<longrightarrow> str_to_dot s = Inl IndexError) \<and>
         (t \<noteq> [] \<longrightarrow> str_to_dot s = Inr (take 9 t @ drop 10 (take (length t - 2) t) @ [last t])) \<and>
         (11 \<le> length t \<longrightarrow> str_to_dot s = Inr (remove_9_and_second_last t)) \<and>
         (length t = 10 \<longrightarrow> str_to_dot s = Inr t) \<and>
         (t \<noteq> [] \<and> length t \<le> 9 \<longrightarrow> str_to_dot s = Inr (t @ [last t]))"
proof -
  have t: "normalise s = t" by (simp add: assms normalise_def)
  have 1: "t = [] \<longrightarrow> str_to_dot s = Inl IndexError"
    by (simp add: str_to_dot_unfold t)
  have 2: "t \<noteq> [] \<longrightarrow> str_to_dot s = Inr (take 9 t @ drop 10 (take (length t - 2) t) @ [last t])"
    by (simp add: str_to_dot_unfold t)
  have 3: "11 \<le> length t \<longrightarrow> str_to_dot s = Inr (remove_9_and_second_last t)"
  proof
    assume l: "11 \<le> length t"
    then have "t \<noteq> []" by auto
    with 2 edit_long[OF l] show "str_to_dot s = Inr (remove_9_and_second_last t)" by simp
  qed
  have 4: "length t = 10 \<longrightarrow> str_to_dot s = Inr t"
  proof
    assume l: "length t = 10"
    then have ne: "t \<noteq> []" by auto
    from l have "take 9 t = butlast t" by (simp add: butlast_conv_take)
    with ne l 2 show "str_to_dot s = Inr t" by simp
  qed
  have 5: "t \<noteq> [] \<and> length t \<le> 9 \<longrightarrow> str_to_dot s = Inr (t @ [last t])"
    using 2 by auto
  from 1 2 3 4 5 show ?thesis by blast
qed

text \<open>
  The theorem at the text of a graph with the single node \<open>a\<close>, where the semicolon
  after the opening brace (position 9) and the one before the closing brace go, and at
  a string of ten characters, a string of two characters and a blank string.
\<close>

theorem str_to_dot_edit_witness:
  "str_to_dot (''digraph {'' @ [NL, TAB] @ ''a'' @ [NL] @ ''}'' @ [NL]) = Inr ''digraph {a}'' \<and>
   remove_9_and_second_last ''digraph {;a;}'' = ''digraph {a}'' \<and>
   str_to_dot ''0123456789'' = Inr ''0123456789'' \<and>
   str_to_dot ''ab'' = Inr ''abb'' \<and>
   str_to_dot '' '' = Inl IndexError"
proof -
  let ?s = "''digraph {'' @ [NL, TAB] @ ''a'' @ [NL] @ ''}'' @ [NL]"
  have 1: "''digraph {;a;}'' = py_replace TAB [] (py_replace NL '';'' (py_strip ?s))"
    by (simp add: py_strip_def py_isspace_def py_replace_def NL_def TAB_def)
  have 2: "remove_9_and_second_last ''digraph {;a;}'' = ''digraph {a}''"
    by (simp add: remove_9_and_second_last_def upt_rec)
  have "11 \<le> length ''digraph {;a;}''" by simp
  with str_to_dot_edit[OF 1]
  have 3: "str_to_dot ?s = Inr (remove_9_and_second_last ''digraph {;a;}'')" by blast
  have 4: "''0123456789'' = py_replace TAB [] (py_replace NL '';'' (py_strip ''0123456789''))"
    by (simp add: py_strip_def py_isspace_def py_replace_def NL_def TAB_def)
  have "length ''0123456789'' = 10" by simp
  with str_to_dot_edit[OF 4] have 5: "str_to_dot ''0123456789'' = Inr ''0123456789''" by blast
  have 6: "''ab'' = py_replace TAB [] (py_replace NL '';'' (py_strip ''ab''))"
    by (simp add: py_strip_def py_isspace_def py_replace_def NL_def TAB_def)
  have "''ab'' \<noteq> [] \<and> length ''ab'' \<le> 9" by simp
  with str_to_dot_edit[OF 6] have "str_to_dot ''ab'' = Inr (''ab'' @ [last ''ab''])" by blast
  then have 7: "str_to_dot ''ab'' = Inr ''abb''" by simp
  have 8: "[] = py_replace TAB [] (py_replace NL '';'' (py_strip '' ''))"
    by (simp add: py_strip_def py_isspace_def py_replace_def)
  from str_to_dot_edit[OF 8] have 9: "str_to_dot '' '' = Inl IndexError" by blast
  show ?thesis by (intro conjI) (simp only: 3 2, rule 2, rule 5, rule 7, rule 9)
qed

text \<open>
  Claim C2 as it is worded fails on short inputs: a string of ten characters comes back
  unchanged, although the character at position 9 and the second-to-last one would
  have to go, and on a blank input nothing is returned.
\<close>

theorem str_to_dot_short_counterexample:
  "str_to_dot ''0123456789'' = Inr ''0123456789'' \<and>
   normalise ''0123456789'' = ''0123456789'' \<and>
   remove_9_and_second_last ''0123456789'' = ''01234567'' \<and>
   str_to_dot '' '' = Inl IndexError"
  by (simp add: str_to_dot_unfold normalise_def py_strip_def py_isspace_def py_replace_def
      NL_def TAB_def remove_9_and_second_last_def upt_rec)

subsection \<open>When the edit raises\<close>

text \<open>
  Claim C7, as the code has it. \<^verbatim>\<open>str_to_dot\<close> validates nothing: it raises
  \<^verbatim>\<open>IndexError\<close> exactly when the input is empty or consists of whitespace only, and
  on every input with a character that is not whitespace it returns a string, whatever
  the shape of the input.
\<close>

theorem str_to_dot_raises_iff:
  "(str_to_dot s = Inl IndexError \<longleftrightarrow> (\<forall>c\<in>set s. py_isspace c)) \<and>
   ((\<exists>c\<in>set s. \<not> py_isspace c) \<longrightarrow> (\<exists>r. str_to_dot s = Inr r))"
  by (simp add: str_to_dot_unfold Let_def normalise_Nil_iff)

text \<open>
  The theorem at \<^verbatim>\<open>'graph'\<close>, which has no header of nine characters and yields a
  string, and at a single space, which raises.
\<close>

theorem str_to_dot_raises_iff_witness:
  "(\<exists>c\<in>set ''graph''. \<not> py_isspace c) \<and> (\<exists>r. str_to_dot ''graph'' = Inr r) \<and>
   str_to_dot ''graph'' \<noteq> Inl IndexError \<and> str_to_dot '' '' = Inl IndexError"
proof -
  have 1: "\<exists>c\<in>set ''graph''. \<not> py_isspace c" by (simp add: py_isspace_def)
  have 2: "\<forall>c\<in>set '' ''. py_isspace c" by (simp add: py_isspace_def)
  from str_to_dot_raises_iff[of "''graph''"] str_to_dot_raises_iff[of "'' ''"] 1 2
  show ?thesis by blast
qed

text \<open>
  Claim C7 as it is worded fails on the empty string: it does not start with the
  header, and \<^verbatim>\<open>str_to_dot\<close> raises on it.
\<close>

theorem str_to_dot_empty_counterexample:
  "take 9 [] \<noteq> ''digraph {'' \<and> str_to_dot [] = Inl IndexError"
  by (simp add: str_to_dot_unfold normalise_def py_strip_def py_replace_def)

subsection \<open>The edit on rendered text\<close>

text \<open>
  Claim C6, as the code has it. On the rendered text of a graph, \<^verbatim>\<open>str_to_dot\<close> keeps
  the header \<^verbatim>\<open>digraph {\<close> and the closing brace. Its last line removes the semicolon
  that stands for the newline after the opening brace and the one before the closing
  brace, which are one and the same when the graph has no declaration. The result is
  the header, the declarations separated by single semicolons,
  and the closing brace, where a declaration has lost the tabs it holds and has a
  semicolon for each newline it holds, as the first line of the function does to the
  whole text; a declaration with neither tab nor newline is kept as it is.
\<close>

theorem str_to_dot_on_rendered:
  "str_to_dot (render stmts) =
     Inr (''digraph {'' @
          butlast (concat (map (\<lambda>l. py_replace TAB [] (py_replace NL '';'' l) @ '';'') stmts)) @
          ''}'') \<and>
   ((\<forall>l\<in>set stmts. NL \<notin> set l \<and> TAB \<notin> set l) \<longrightarrow>
      str_to_dot (render stmts) =
        Inr (''digraph {'' @ butlast (concat (map (\<lambda>l. l @ '';'') stmts)) @ ''}''))"
proof -
  define B where
    "B = concat (map (\<lambda>l. py_replace TAB [] (py_replace NL '';'' l) @ '';'') stmts)"
  have n: "normalise (render stmts) = ''digraph {;'' @ B @ ''}''"
    using normalise_render[of stmts] by (simp add: B_def)
  have 1: "str_to_dot (render stmts) = Inr (''digraph {'' @ butlast B @ ''}'')"
    by (cases B rule: rev_cases) (simp_all add: str_to_dot_unfold n Let_def)
  have 2: "B = concat (map (\<lambda>l. l @ '';'') stmts)"
    if "\<forall>l\<in>set stmts. NL \<notin> set l \<and> TAB \<notin> set l"
  proof -
    have "map (\<lambda>l. py_replace TAB [] (py_replace NL '';'' l) @ '';'') stmts
        = map (\<lambda>l. l @ '';'') stmts"
      using that by (simp add: py_replace_id)
    then show ?thesis by (simp only: B_def)
  qed
  from 1 2 show ?thesis unfolding B_def by auto
qed

text \<open>
  The theorem at the text of the graph of the scenario, whose declarations are kept as
  they are, and at a declaration that holds a tab, which loses it.
\<close>

theorem str_to_dot_on_rendered_witness:
  "str_to_dot (render [''a'', ''b'', ''b -> a [label=0.5]'', ''a -> b [label=0.02]'']) =
     Inr ''digraph {a;b;b -> a [label=0.5];a -> b [label=0.02]}'' \<and>
   str_to_dot (render [''a'' @ [TAB] @ ''b'']) = Inr ''digraph {ab}''"
proof -
  have 1: "\<forall>l\<in>set [''a'', ''b'', ''b -> a [label=0.5]'', ''a -> b [label=0.02]''].
      NL \<notin> set l \<and> TAB \<notin> set l"
    by (simp add: NL_def TAB_def)
  let ?X = "[''a'', ''b'', ''b -> a [label=0.5]'', ''a -> b [label=0.02]'']"
  from str_to_dot_on_rendered[of ?X] 1
  have "str_to_dot (render ?X) =
      Inr (''digraph {'' @ butlast (concat (map (\<lambda>l. l @ '';'') ?X)) @ ''}'')"
    by blast
  then have 2: "str_to_dot (render ?X) =
      Inr ''digraph {a;b;b -> a [label=0.5];a -> b [label=0.02]}''"
    by simp
  let ?Y = "[''a'' @ [TAB] @ ''b'']"
  from str_to_dot_on_rendered[of ?Y]
  have "str_to_dot (render ?Y) =
      Inr (''digraph {'' @
           butlast (concat (map (\<lambda>l. py_replace TAB [] (py_replace NL '';'' l) @ '';'') ?Y)) @
           ''}'')"
    by blast
  then have 3: "str_to_dot (render ?Y) = Inr ''digraph {ab}''"
    by (simp add: py_replace_def NL_def TAB_def)
  from 2 3 show ?thesis by (rule conjI)
qed

text \<open>
  Claim C6 as it is worded fails: the graph-type keyword \<^verbatim>\<open>digraph\<close> is still there,
  at the start of the result.
\<close>

theorem str_to_dot_keeps_keyword_counterexample:
  "str_to_dot (render [''a'', ''b'', ''b -> a [label=0.5]'']) = Inr ''digraph {a;b;b -> a [label=0.5]}'' \<and>
   prefix ''digraph'' ''digraph {a;b;b -> a [label=0.5]}''"
  by (simp add: str_to_dot_unfold render_def normalise_def py_strip_def py_isspace_def
      py_replace_def NL_def TAB_def)

section \<open>Properties of \<^verbatim>\<open>make_graph\<close>\<close>

subsection \<open>The threshold test\<close>

lemma np_abs_le: "np_abs t x \<le> \<bar>x\<bar>"
  by (simp add: np_abs_def split: dtype.split)


lemma np_abs_wraps: "wraps t x \<Longrightarrow> np_abs t x \<le> 0"
  by (cases t) (simp_all add: np_abs_def wraps_def)


subsection \<open>The arrays of the edge loop\<close>

lemma zip_upt_nth: "zip [0..<length xs] xs = map (\<lambda>i. (i, xs ! i)) [0..<length xs]"
  by (rule nth_equalityI) simp_all

lemma filter_via_index: "map ((!) xs) (filter (\<lambda>c. p (xs ! c)) [0..<length xs]) = filter p xs"
proof -
  have "filter p xs = filter p (map ((!) xs) [0..<length xs])" by (simp add: map_nth)
  also have "\<dots> = map ((!) xs) (filter (p \<circ> (!) xs) [0..<length xs])" by (rule filter_map)
  finally show ?thesis by (simp add: comp_def)
qed

lemma select_row: "map fst (filter snd (map (\<lambda>x. (x, p x)) row)) = filter p row"
  by (induction row) simp_all

lemma mask_row:
  "filter ((!) (map p xs)) [0..<length xs] = filter (\<lambda>c. p (xs ! c)) [0..<length xs]"
  by (rule filter_cong) simp_all

lemma np_where_abs_gt:
  "np_where (np_abs_gt a t) = (map fst (hits t a), map snd (hits t a))"
proof -
  let ?idx = "np_abs_gt a t"
  let ?p = "\<lambda>x. np_abs (dtype a) x > t"
  have "map (\<lambda>(r, row). map (Pair r) (filter (\<lambda>c. row ! c) [0..<length row]))
          (zip [0..<length ?idx] ?idx)
      = map (\<lambda>r. map (Pair r) (filter (\<lambda>c. ?p (rows a ! r ! c)) [0..<length (rows a ! r)]))
          [0..<length (rows a)]"
  proof -
    have len: "length ?idx = length (rows a)" by (simp add: np_abs_gt_def)
    have nth: "r < length (rows a) \<Longrightarrow> ?idx ! r = map ?p (rows a ! r)" for r
      by (simp add: np_abs_gt_def)
    have z: "zip [0..<length ?idx] ?idx = map (\<lambda>i. (i, ?idx ! i)) [0..<length (rows a)]"
      by (subst zip_upt_nth) (simp add: len)
    show ?thesis
      unfolding z by (simp add: nth mask_row[where p = ?p])
  qed
  then show ?thesis by (simp add: np_where_def hits_def Let_def)
qed

lemma np_select_abs_gt:
  "np_select a (np_abs_gt a t) = map (\<lambda>(r, c). rows a ! r ! c) (hits t a)"
proof -
  let ?p = "\<lambda>x. np_abs (dtype a) x > t"
  have "np_select a (np_abs_gt a t) = concat (map (filter ?p) (rows a))"
    by (simp add: np_select_def np_abs_gt_def zip_map2 zip_same_conv_map comp_def
        select_row[where p = ?p])
  also have "\<dots> = concat (map (filter ?p) (map ((!) (rows a)) [0..<length (rows a)]))"
    by (simp only: map_nth)
  also have "\<dots> = map (\<lambda>(r, c). rows a ! r ! c) (hits t a)"
    by (simp add: hits_def map_concat comp_def filter_via_index[where p = ?p])
  finally show ?thesis .
qed

lemma triples_abs_gt:
  "zip (fst (np_where (np_abs_gt a t)))
       (zip (snd (np_where (np_abs_gt a t))) (np_select a (np_abs_gt a t)))
     = map (\<lambda>(r, c). (r, c, rows a ! r ! c)) (hits t a)"
  by (simp add: np_where_abs_gt np_select_abs_gt zip_map_map zip_same_conv_map
      case_prod_unfold comp_def)

lemma fold_node:
  "fold (\<lambda>name d. node d name) names d = d\<lparr>body := body d @ map Node names\<rparr>"
  by (induction names arbitrary: d) (simp_all add: node_def)

lemma add_edges_char:
  "add_edges str names ts d =
     (if \<forall>(to, from', coef) \<in> set ts. to < length names \<and> from' < length names
      then Inr (d\<lparr>body := body d @
                  map (\<lambda>(to, from', coef). Edge (names ! from') (names ! to) (str coef)) ts\<rparr>)
      else Inl IndexError)"
proof (induction ts arbitrary: d)
  case Nil
  then show ?case by simp
next
  case (Cons t ts)
  obtain to from' coef where t: "t = (to, from', coef)" by (cases t)
  show ?case unfolding t by (simp add: py_index_nat Cons.IH edge_def)
qed

subsection \<open>The graph that is returned\<close>

lemma make_graph_char:
  "make_graph str a labels =
     (let names = names_for a labels in
      if \<forall>(r, c) \<in> set (hits 0.01 a). r < length names \<and> c < length names
      then Inr \<lparr>engine = ''dot'',
                body = map Node names @
                  map (\<lambda>(r, c). Edge (names ! c) (names ! r) (str (rows a ! r ! c))) (hits 0.01 a)\<rparr>
      else Inl IndexError)"
  by (simp add: make_graph_def Let_def triples_abs_gt add_edges_char fold_node Digraph_def
      names_for_def case_prod_unfold comp_def)

lemma set_hits:
  "set (hits t a) =
     {(r, c). r < length (rows a) \<and> c < length (rows a ! r) \<and> np_abs (dtype a) (rows a ! r ! c) > t}"
  by (auto simp: hits_def)



lemma nodes_of_append: "nodes_of (xs @ ys) = nodes_of xs @ nodes_of ys"
  by (induction xs rule: nodes_of.induct) simp_all

lemma edges_of_append: "edges_of (xs @ ys) = edges_of xs @ edges_of ys"
  by (induction xs rule: edges_of.induct) simp_all

lemma nodes_of_Node: "nodes_of (map Node ns) = ns"
  by (induction ns) simp_all

lemma edges_of_Node: "edges_of (map Node ns) = []"
  by (induction ns) simp_all

lemma nodes_of_Edge: "nodes_of (map (\<lambda>p. Edge (f p) (g p) (h p)) ps) = []"
  by (induction ps) simp_all

lemma edges_of_Edge:
  "edges_of (map (\<lambda>p. Edge (f p) (g p) (h p)) ps) = map (\<lambda>p. (f p, g p, h p)) ps"
  by (induction ps) simp_all

lemma make_graph_Inr:
  assumes "make_graph str a labels = Inr d"
  shows "d = \<lparr>engine = ''dot'', body = map Node (names_for a labels) @
            map (\<lambda>(r, c). Edge (names_for a labels ! c) (names_for a labels ! r)
                              (str (rows a ! r ! c))) (hits 0.01 a)\<rparr>"
  using assms by (simp add: make_graph_char Let_def split: if_splits)

lemma nodes_made:
  "nodes \<lparr>engine = e, body = map Node ns @ map (\<lambda>(r, c). Edge (f r c) (g r c) (h r c)) ps\<rparr> = ns"
  by (simp add: nodes_def nodes_of_append nodes_of_Node case_prod_unfold nodes_of_Edge)

lemma edges_made:
  "edges \<lparr>engine = e, body = map Node ns @ map (\<lambda>(r, c). Edge (f r c) (g r c) (h r c)) ps\<rparr>
     = map (\<lambda>(r, c). (f r c, g r c, h r c)) ps"
  by (simp add: edges_def edges_of_append edges_of_Node case_prod_unfold edges_of_Edge)

lemma square_hits: "square n (rows a) \<Longrightarrow> (r, c) \<in> set (hits t a) \<Longrightarrow> r < n \<and> c < n"
  by (auto simp: set_hits square_def)

lemma names_for_Some: "ls \<noteq> [] \<Longrightarrow> names_for a (Some ls) = ls"
  by (simp add: names_for_def truthy_def)

lemma names_for_falsy:
  "names_for a None = map (\<lambda>i. ''x'' @ str_nat i) [0..<length (rows a)]"
  "names_for a (Some []) = map (\<lambda>i. ''x'' @ str_nat i) [0..<length (rows a)]"
  by (simp_all add: names_for_def truthy_def)

lemma names_for_square:
  "square n (rows a) \<Longrightarrow> length ls = n \<Longrightarrow> names_for a (Some ls) = ls"
  by (cases ls) (auto simp: names_for_def truthy_def square_def)

lemma make_graph_square:
  assumes "square n (rows a)" "length (names_for a labels) = n"
  shows "make_graph str a labels = Inr \<lparr>engine = ''dot'', body = map Node (names_for a labels) @
            map (\<lambda>(r, c). Edge (names_for a labels ! c) (names_for a labels ! r)
                              (str (rows a ! r ! c))) (hits 0.01 a)\<rparr>"
  using assms square_hits[OF assms(1)] by (auto simp add: make_graph_char Let_def)

lemma make_graph_nodes:
  assumes "make_graph str a labels = Inr d"
  shows "nodes d = names_for a labels"
  by (subst make_graph_Inr[OF assms]) (simp only: nodes_made)

lemma make_graph_edges:
  assumes "make_graph str a labels = Inr d"
  shows "edges d = map (\<lambda>(r, c). (names_for a labels ! c, names_for a labels ! r,
                                   str (rows a ! r ! c))) (hits 0.01 a)"
  by (subst make_graph_Inr[OF assms]) (simp only: edges_made)


lemma make_graph_returns:
  assumes "square n (rows a)" "length (names_for a labels) = n"
  shows "\<exists>d. make_graph str a labels = Inr d"
  using make_graph_square[OF assms] by blast



lemma scenario_graph:
  assumes "str (1 / 2) = ''0.5''" and "str (1 / 50) = ''0.02''"
  shows "make_graph str \<lparr>dtype = Floating, rows = [[0, 1 / 2], [1 / 50, 0]]\<rparr> (Some [''a'', ''b'']) =
     Inr \<lparr>engine = ''dot'',
          body = [Node ''a'', Node ''b'', Edge ''b'' ''a'' ''0.5'', Edge ''a'' ''b'' ''0.02'']\<rparr>"
  using assms by (simp add: make_graph_char Let_def names_for_Some hits_def np_abs_def)


lemma str_nat_examples:
  "str_nat 0 = ''0''" "str_nat 7 = ''7''" "str_nat 10 = ''10''" "str_nat 405 = ''405''"
  by (simp_all add: str_nat.simps digit_def)

subsection \<open>Edges\<close>




text \<open>
  Claim C3, as the code has it. With \<^verbatim>\<open>str(0.5) = '0.5'\<close> and \<^verbatim>\<open>str(0.02) = '0.02'\<close>, the
  matrix \<^verbatim>\<open>[[0, 0.5], [0.02, 0]]\<close> with the labels \<open>a\<close> and \<open>b\<close> gives the two nodes and
  exactly two edges: from \<open>b\<close> to \<open>a\<close> with the label \<^verbatim>\<open>0.5\<close>, since 0.5 stands in row 0
  and column 1, and from \<open>a\<close> to \<open>b\<close> with the label \<^verbatim>\<open>0.02\<close>.
\<close>

theorem make_graph_scenario:
  assumes "str 0.5 = ''0.5''" and "str 0.02 = ''0.02''"
  shows "make_graph str \<lparr>dtype = Floating, rows = [[0, 0.5], [0.02, 0]]\<rparr> (Some [''a'', ''b'']) =
     Inr \<lparr>engine = ''dot'',
          body = [Node ''a'', Node ''b'', Edge ''b'' ''a'' ''0.5'', Edge ''a'' ''b'' ''0.02'']\<rparr>"
  using assms scenario_graph[of str] by simp

text \<open>The theorem with the strings of the scenario for \<open>str\<close>.\<close>

theorem make_graph_scenario_witness:
  "str_scenario 0.5 = ''0.5'' \<and> str_scenario 0.02 = ''0.02'' \<and>
   make_graph str_scenario \<lparr>dtype = Floating, rows = [[0, 0.5], [0.02, 0]]\<rparr> (Some [''a'', ''b'']) =
     Inr \<lparr>engine = ''dot'',
          body = [Node ''a'', Node ''b'', Edge ''b'' ''a'' ''0.5'', Edge ''a'' ''b'' ''0.02'']\<rparr>"
proof -
  have 1: "str_scenario 0.5 = ''0.5''" by (simp add: str_scenario_def)
  have 2: "str_scenario 0.02 = ''0.02''" by (simp add: str_scenario_def)
  from make_graph_scenario[OF 1 2] 1 2 show ?thesis by blast
qed

text \<open>
  Claim C3 as it is worded fails: the graph has no edge from \<open>a\<close> to \<open>b\<close> with the
  label \<^verbatim>\<open>0.5\<close>.
\<close>

theorem scenario_edges_counterexample:
  "make_graph str_scenario \<lparr>dtype = Floating, rows = [[0, 0.5], [0.02, 0]]\<rparr> (Some [''a'', ''b'']) =
     Inr \<lparr>engine = ''dot'',
          body = [Node ''a'', Node ''b'', Edge ''b'' ''a'' ''0.5'', Edge ''a'' ''b'' ''0.02'']\<rparr> \<and>
   (''a'', ''b'', ''0.5'') \<notin> set (edges \<lparr>engine = ''dot'',
          body = [Node ''a'', Node ''b'', Edge ''b'' ''a'' ''0.5'', Edge ''a'' ''b'' ''0.02'']\<rparr>)"
  using scenario_graph[of str_scenario] by (simp add: str_scenario_def edges_def)




subsection \<open>Nodes\<close>

text \<open>
  Claim C4. For an array whose rows form a square of size \<open>n\<close> and a list \<open>L\<close> of \<open>n\<close>
  labels, \<^verbatim>\<open>make_graph\<close> returns a graph whose declared nodes are the labels of \<open>L\<close>,
  in the order of \<open>L\<close>, whatever the edges are; when all entries are zero the graph has
  these \<open>n\<close> nodes and no edge.
\<close>

theorem make_graph_declares_labels:
  assumes "square n (rows M)" and "length L = n"
  shows "\<exists>d. make_graph str M (Some L) = Inr d \<and> nodes d = L \<and> length (nodes d) = n \<and>
    ((\<forall>r<n. \<forall>c<n. rows M ! r ! c = 0) \<longrightarrow> edges d = [])"
proof -
  have nm: "names_for M (Some L) = L" using assms by (rule names_for_square)
  then obtain d where d: "make_graph str M (Some L) = Inr d"
    using make_graph_returns[OF assms(1), of "Some L" str] assms(2) by auto
  have "edges d = []" if z: "\<forall>r<n. \<forall>c<n. rows M ! r ! c = 0"
  proof -
    have "\<not> np_abs (dtype M) (rows M ! r ! c) > 0.01" if "r < n" "c < n" for r c
      using np_abs_le[of "dtype M" "rows M ! r ! c"] z that by simp
    then have "set (hits 0.01 M) = {}" using assms(1) by (auto simp: set_hits square_def)
    then show ?thesis using make_graph_edges[OF d] by simp
  qed
  then show ?thesis using d make_graph_nodes[OF d] assms(2) by (simp add: nm)
qed

text \<open>The theorem at the zero matrix of size two.\<close>

theorem make_graph_declares_labels_witness:
  "square 2 [[0, 0], [0, 0]] \<and> length [''a'', ''b''] = 2 \<and>
   (\<exists>d. make_graph str_scenario \<lparr>dtype = Floating, rows = [[0, 0], [0, 0]]\<rparr>
           (Some [''a'', ''b'']) = Inr d \<and>
      nodes d = [''a'', ''b''] \<and> length (nodes d) = 2 \<and> edges d = [])"
proof -
  let ?M = "\<lparr>dtype = Floating, rows = [[0, 0], [0, 0::real]]\<rparr>"
  have 1: "square 2 (rows ?M)" by (simp add: square_def)
  have 2: "length [''a'', ''b''] = 2" by simp
  have 3: "\<forall>r<2. \<forall>c<2. rows ?M ! r ! c = 0"
    by (auto simp: less_2_cases_iff)
  from make_graph_declares_labels[OF 1 2, of str_scenario] 1 2 3 show ?thesis by auto
qed

text \<open>
  Claim C5. Without labels, the nodes of the graph returned for an array of \<open>n\<close> rows
  are \<^verbatim>\<open>x0\<close>, \<^verbatim>\<open>x1\<close>, and so on up to \<open>n - 1\<close>, in this order; and for rows that form a
  square a graph is returned.
\<close>

theorem make_graph_default_names:
  "(\<forall>d. make_graph str M None = Inr d \<longrightarrow>
        nodes d = map (\<lambda>i. ''x'' @ str_nat i) [0..<length (rows M)]) \<and>
   (square (length (rows M)) (rows M) \<longrightarrow> (\<exists>d. make_graph str M None = Inr d))"
proof (intro conjI allI impI)
  fix d assume "make_graph str M None = Inr d"
  from make_graph_nodes[OF this]
  show "nodes d = map (\<lambda>i. ''x'' @ str_nat i) [0..<length (rows M)]"
    by (simp only: names_for_falsy)
next
  assume "square (length (rows M)) (rows M)"
  then show "\<exists>d. make_graph str M None = Inr d"
    by (rule make_graph_returns) (simp add: names_for_falsy)
qed

text \<open>The theorem at the matrix of the scenario.\<close>

theorem make_graph_default_names_witness:
  "square (length [[0, 0.5], [0.02, 0::real]]) [[0, 0.5], [0.02, 0]] \<and>
   (\<exists>d. make_graph str_scenario \<lparr>dtype = Floating, rows = [[0, 0.5], [0.02, 0]]\<rparr> None = Inr d \<and>
        nodes d = [''x0'', ''x1''])"
proof -
  let ?M = "\<lparr>dtype = Floating, rows = [[0, 0.5], [0.02, 0::real]]\<rparr>"
  have 1: "square (length (rows ?M)) (rows ?M)" by (simp add: square_def)
  have 2: "map (\<lambda>i. ''x'' @ str_nat i) [0..<length (rows ?M)] = [''x0'', ''x1'']"
    by (simp add: str_nat.simps digit_def)
  from make_graph_default_names[of str_scenario ?M] 1 obtain d where
    d: "make_graph str_scenario ?M None = Inr d"
    and n: "nodes d = map (\<lambda>i. ''x'' @ str_nat i) [0..<length (rows ?M)]" by blast
  from d n 1 show ?thesis unfolding 2 by auto
qed

text \<open>
  Claim C9. An empty list of labels is treated as no labels at all: the result is the
  same, so that for rows that form a square of size \<open>n\<close> the \<open>n\<close> nodes \<^verbatim>\<open>x0\<close>, \<^verbatim>\<open>x1\<close>,
  and so on are declared, and not zero nodes.
\<close>

theorem make_graph_empty_labels:
  "make_graph str M (Some []) = make_graph str M None \<and>
   (square (length (rows M)) (rows M) \<longrightarrow>
      (\<exists>d. make_graph str M (Some []) = Inr d \<and>
           nodes d = map (\<lambda>i. ''x'' @ str_nat i) [0..<length (rows M)] \<and>
           length (nodes d) = length (rows M)))"
proof (intro conjI impI)
  show "make_graph str M (Some []) = make_graph str M None"
    by (simp add: make_graph_def truthy_def)
next
  assume "square (length (rows M)) (rows M)"
  then obtain d where d: "make_graph str M (Some []) = Inr d"
    using make_graph_returns[of "length (rows M)" M "Some []" str]
    by (auto simp: names_for_falsy)
  have "nodes d = map (\<lambda>i. ''x'' @ str_nat i) [0..<length (rows M)]"
    using make_graph_nodes[OF d] by (simp only: names_for_falsy)
  then show "\<exists>d. make_graph str M (Some []) = Inr d \<and>
           nodes d = map (\<lambda>i. ''x'' @ str_nat i) [0..<length (rows M)] \<and>
           length (nodes d) = length (rows M)"
    using d by simp
qed

text \<open>The theorem at the matrix of the scenario.\<close>

theorem make_graph_empty_labels_witness:
  "square (length [[0, 0.5], [0.02, 0::real]]) [[0, 0.5], [0.02, 0]] \<and>
   (\<exists>d. make_graph str_scenario \<lparr>dtype = Floating, rows = [[0, 0.5], [0.02, 0]]\<rparr> (Some []) = Inr d \<and>
        nodes d = [''x0'', ''x1''] \<and> length (nodes d) = 2)"
proof -
  let ?M = "\<lparr>dtype = Floating, rows = [[0, 0.5], [0.02, 0::real]]\<rparr>"
  have 1: "square (length (rows ?M)) (rows ?M)" by (simp add: square_def)
  have 2: "map (\<lambda>i. ''x'' @ str_nat i) [0..<length (rows ?M)] = [''x0'', ''x1'']"
    by (simp add: str_nat.simps digit_def)
  from make_graph_empty_labels[of str_scenario ?M] 1 obtain d where
    d: "make_graph str_scenario ?M (Some []) = Inr d"
    and n: "nodes d = map (\<lambda>i. ''x'' @ str_nat i) [0..<length (rows ?M)]" by blast
  from n have "length (nodes d) = 2" by simp
  with d n 1 show ?thesis unfolding 2 by auto
qed

subsection \<open>Labels that do not match the matrix\<close>




end
